theory Spec2Isabelle
  imports Complex_Main "HOL-Library.Multiset"
begin

section \<open>Data model (app/core/models.py)\<close>

text \<open>
  Exceptions of the Python program are values of \<open>error\<close>; a function that can raise
  returns \<open>error + 'a\<close> with \<open>Inl\<close> for the exception.
\<close>

datatype error = ValidationError | AttributeError | KeyError | ValueError

text \<open>
  JSON values as Python holds them after parsing: \<open>None\<close>, \<open>bool\<close>, \<open>int\<close>, \<open>float\<close>,
  \<open>str\<close>, \<open>list\<close> and \<open>dict\<close> (an association list with distinct keys, in insertion
  order).
\<close>

datatype json =
    JNull
  | JBool bool
  | JInt int
  | JFloat rat
  | JStr string
  | JArr "json list"
  | JObj "(string \<times> json) list"

text \<open>Truthiness of a parsed JSON value (\<open>not x\<close> is its negation).\<close>

fun json_truthy :: "json \<Rightarrow> bool" where
  "json_truthy JNull = False"
| "json_truthy (JBool b) = b"
| "json_truthy (JInt i) = (i \<noteq> 0)"
| "json_truthy (JFloat r) = (r \<noteq> 0)"
| "json_truthy (JStr s) = (s \<noteq> [])"
| "json_truthy (JArr xs) = (xs \<noteq> [])"
| "json_truthy (JObj kvs) = (kvs \<noteq> [])"

text \<open>
  A tool-call request of a model response, \<open>{name, args, id}\<close>; \<open>args\<close> is the
  dictionary of arguments the model wrote.
\<close>

record tool_call =
  tc_name :: string
  tc_args :: "(string \<times> json) list"
  tc_id :: string

text \<open>
  The LangChain message classes. \<open>ToolMessage\<close> carries content, tool_call_id and name;
  an \<open>AIMessage\<close> carries the tool calls it requests.
\<close>

datatype message =
    HumanMessage string
  | AIMessage string "tool_call list"
  | SystemMessage string
  | ToolMessage string string string

fun content :: "message \<Rightarrow> string" where
  "content (HumanMessage c) = c"
| "content (AIMessage c tcs) = c"
| "content (SystemMessage c) = c"
| "content (ToolMessage c i n) = c"

fun isinstance_Human :: "message \<Rightarrow> bool" where
  "isinstance_Human (HumanMessage c) = True"
| "isinstance_Human m = False"

fun isinstance_AI :: "message \<Rightarrow> bool" where
  "isinstance_AI (AIMessage c tcs) = True"
| "isinstance_AI m = False"

record ExecutionPlan =
  needs_tutor_answer :: bool
  needs_judge :: bool
  needs_inquiry :: bool
  request_summary :: bool
  is_concluding :: bool
  thought_process :: string

text \<open>
  The constructor of the pydantic model \<open>ExecutionPlan\<close>. Every field is declared as
  \<open>Field(description=...)\<close> without a default, so every field is required: a keyword
  that is left out (\<open>None\<close> here) makes the constructor raise a validation error.
\<close>

definition ExecutionPlan_init ::
  "bool option \<Rightarrow> bool option \<Rightarrow> bool option \<Rightarrow> bool option \<Rightarrow> bool option \<Rightarrow>
   string option \<Rightarrow> error + ExecutionPlan" where
  "ExecutionPlan_init nt nj ni rs ic tp =
     (case (nt, nj, ni, rs, ic, tp) of
        (Some a, Some b, Some c, Some d, Some e, Some t) \<Rightarrow>
          Inr \<lparr>needs_tutor_answer = a, needs_judge = b, needs_inquiry = c,
               request_summary = d, is_concluding = e, thought_process = t\<rparr>
      | _ \<Rightarrow> Inl ValidationError)"

text \<open>
  \<open>AgentState\<close> is a dictionary: a key can be missing. Where the program tells a missing
  key from a key holding \<open>None\<close> (\<open>state.get(k, default)\<close>, \<open>state[k]\<close>), the field has
  one \<open>option\<close> for the key (\<open>None\<close>: key absent) around the value; where it only ever
  reads \<open>state.get(k)\<close>, absent and \<open>None\<close> are the same \<open>None\<close>.
\<close>

record AgentState =
  messages :: "message list"
  current_topic :: "string option option"
  session_id :: "string option"
  conversation_summary :: "string option option"
  summarized_msg_count :: "int option"
  plan :: "ExecutionPlan option"
  should_exit :: bool
  tutor_output :: "string option"
  judge_output :: "string option"
  inquiry_output :: "string option"
  summary_output :: "string option"

text \<open>\<open>d.get(k, default)\<close>: the default only replaces a missing key.\<close>

definition py_get :: "'a option \<Rightarrow> 'a \<Rightarrow> 'a" where
  "py_get entry dflt = (case entry of None \<Rightarrow> dflt | Some v \<Rightarrow> v)"

text \<open>\<open>state.get("conversation_summary")\<close>: \<open>None\<close> for a missing key.\<close>

definition get_summary :: "AgentState \<Rightarrow> string option" where
  "get_summary st = py_get (conversation_summary st) None"

text \<open>Truthiness of an optional string: \<open>None\<close> and \<open>""\<close> are false.\<close>

fun truthy :: "string option \<Rightarrow> bool" where
  "truthy None = False"
| "truthy (Some s) = (s \<noteq> [])"

text \<open>\<open>x or ""\<close> for an optional string.\<close>

fun or_empty :: "string option \<Rightarrow> string" where
  "or_empty None = []"
| "or_empty (Some s) = s"

section \<open>Router (app/core/agent_builder.py, edge logic)\<close>

datatype node = Analyzer | Tutor | Judge | Inquiry | Summary | Aggregator

text \<open>
  \<open>route_from_analyzer\<close> tests \<open>if not plan\<close> first; a pydantic object is always true,
  so the test is exactly "the plan is \<open>None\<close>".
\<close>

definition route_from_analyzer :: "AgentState \<Rightarrow> node" where
  "route_from_analyzer st =
     (case plan st of
        None \<Rightarrow> Aggregator
      | Some p \<Rightarrow>
          if request_summary p \<or> is_concluding p then Summary
          else if needs_tutor_answer p then Tutor
          else if needs_judge p then Judge
          else if needs_inquiry p then Inquiry
          else Aggregator)"

text \<open>
  \<open>route_from_tutor\<close> and \<open>route_from_judge\<close> read \<open>plan.needs_judge\<close> and
  \<open>plan.needs_inquiry\<close> with no test of \<open>plan\<close>: on \<open>None\<close> the attribute access raises.
\<close>

definition route_from_tutor :: "AgentState \<Rightarrow> error + node" where
  "route_from_tutor st =
     (case plan st of
        None \<Rightarrow> Inl AttributeError
      | Some p \<Rightarrow>
          if needs_judge p then Inr Judge
          else if needs_inquiry p then Inr Inquiry
          else Inr Aggregator)"

definition route_from_judge :: "AgentState \<Rightarrow> error + node" where
  "route_from_judge st =
     (case plan st of
        None \<Rightarrow> Inl AttributeError
      | Some p \<Rightarrow>
          if needs_inquiry p then Inr Inquiry
          else Inr Aggregator)"

definition route_from_summary :: "AgentState \<Rightarrow> node" where
  "route_from_summary st = Aggregator"

text \<open>The state the command-line loop starts from (app/cli.py), for a session id.\<close>

definition initial_state :: "string \<Rightarrow> AgentState" where
  "initial_state sid =
     \<lparr>messages = [], current_topic = Some (Some ''General Knowledge''),
      session_id = Some sid, conversation_summary = None, summarized_msg_count = None,
      plan = None, should_exit = False, tutor_output = None, judge_output = None,
      inquiry_output = None, summary_output = None\<rparr>"

section \<open>External capabilities and literal texts\<close>

text \<open>
  Everything the program calls but does not define is a field of \<open>env\<close>: the language
  model in its three uses (structured decode for the planner, tool-capable, plain), the
  compressor's own model instance, the HTTP search service, the clock, and the library
  string functions \<open>str.lower\<close>, \<open>str.isalnum\<close>, \<open>str(int)\<close>, the float format
  \<open>:.2f\<close>, \<open>str\<close> of a number, list or dictionary (\<open>str_json\<close>) and \<open>str(e)\<close> of an
  exception the interpreter raises (\<open>exception_text\<close>). A call that can raise inside a \<open>try\<close> of the program returns a sum, \<open>Inl\<close>
  with the text of the exception. The prompt templates of app/core/prompts.py and the
  non-ASCII literals of the program are fields too; a template is a function of the
  values \<open>.format\<close> fills in.
\<close>

text \<open>
  The exceptions the interpreter raises on a parsed JSON value of the wrong kind:
  \<open>"references" in x\<close> on a value that is no container, \<open>x["references"]\<close> on a list or
  string, \<open>for item in x\<close> on a value that cannot be iterated, and \<open>x.get(...)\<close> on a
  value that is no dictionary.
\<close>

datatype py_exception =
    NotContainer json
  | BadSubscript json
  | NotIterable json
  | NoAttributeGet json

record env =
  planner_invoke :: "message list \<Rightarrow> string + ExecutionPlan"
  model_with_tools_invoke :: "message list \<Rightarrow> string \<times> tool_call list"
  model_invoke :: "message list \<Rightarrow> string"
  llm_invoke :: "message list \<Rightarrow> string"
  search_post :: "string \<Rightarrow> string + json"
  exception_text :: "py_exception \<Rightarrow> string"
  str_json :: "json \<Rightarrow> string"
  now_isoformat :: string
  now_date :: string
  lower :: "string \<Rightarrow> string"
  isalnum :: "char \<Rightarrow> bool"
  str_int :: "int \<Rightarrow> string"
  format_2f :: "rat \<Rightarrow> string"
  ANALYZER_SYSTEM_PROMPT :: string
  TUTOR_WORKER_PROMPT :: "string \<Rightarrow> string"
  JUDGE_WORKER_PROMPT :: "string \<Rightarrow> string"
  INQUIRY_WORKER_PROMPT :: "string \<Rightarrow> string \<Rightarrow> string"
  SUMMARIZER_NOTE_PROMPT :: string
  SUMMARIZER_REVIEW_PROMPT :: string
  AGGREGATOR_SYSTEM_PROMPT :: "string \<Rightarrow> string \<Rightarrow> string \<Rightarrow> string \<Rightarrow> string"
  COMPRESS_PROMPT :: "string \<Rightarrow> string \<Rightarrow> string"
  SUMMARY_HEADER :: string
  SUMMARY_FOOTER :: string
  RECALL_HEADER :: string
  FRAGMENT_LABEL :: string
  SIMILARITY_LABEL :: string
  NONE_MARK :: string
  NO_RECORD_MARK :: string
  CLARIFY_MESSAGE :: string

abbreviation NL :: string where
  "NL \<equiv> [CHR 0x0A]"

text \<open>\<open>str(x)\<close> of an optional string inside an f-string: \<open>None\<close> prints as "None".\<close>

fun str_opt :: "string option \<Rightarrow> string" where
  "str_opt None = ''None''"
| "str_opt (Some s) = s"

section \<open>Python slices\<close>

text \<open>
  A slice bound \<open>i\<close> on a list of length \<open>n\<close>: a negative bound counts from the end,
  and every bound is clamped into \<open>0..n\<close>.
\<close>

definition py_bound :: "nat \<Rightarrow> int \<Rightarrow> nat" where
  "py_bound n i = (if i < 0 then nat (max 0 (int n + i)) else min (nat i) n)"

definition py_slice :: "'a list \<Rightarrow> int \<Rightarrow> int \<Rightarrow> 'a list" where
  "py_slice xs i j =
     (let a = py_bound (length xs) i; b = py_bound (length xs) j
      in take (b - a) (drop a xs))"

definition py_slice_from :: "'a list \<Rightarrow> int \<Rightarrow> 'a list" where
  "py_slice_from xs i = drop (py_bound (length xs) i) xs"

definition py_slice_to :: "'a list \<Rightarrow> int \<Rightarrow> 'a list" where
  "py_slice_to xs j = take (py_bound (length xs) j) xs"

section \<open>Relevance retriever and context assembler (app/core/context.py)\<close>

definition COMPRESSION_THRESHOLD :: int where
  "COMPRESSION_THRESHOLD = 16"

definition KEEP_WINDOW :: int where
  "KEEP_WINDOW = 5"

definition RECALL_TOP_K :: int where
  "RECALL_TOP_K = 2"

definition DISPLAY_WINDOW :: int where
  "DISPLAY_WINDOW = 12"

text \<open>
  The scores are Python floats \<open>len(intersection) / len(union)\<close>, compared with each
  other and with the literal \<open>0.05\<close>. They are modelled as the exact quotients in
  \<open>rat\<close>, with the threshold \<open>1/20\<close>.

  One iteration of the \<open>while\<close> loop at index \<open>i\<close>: the entries it appends to
  \<open>scored_results\<close> (none or one).
\<close>

definition scan_body ::
  "env \<Rightarrow> message list \<Rightarrow> message list \<Rightarrow> char set \<Rightarrow> nat \<Rightarrow> (rat \<times> string) list" where
  "scan_body env msgs searchable_history query_tokens i =
     (let msg = searchable_history ! i in
      if isinstance_Human msg then
        (let msg_tokens = set (lower env (content msg));
             intersection = query_tokens \<inter> msg_tokens;
             union = query_tokens \<union> msg_tokens
         in if union \<noteq> {} then
              (let score = (of_nat (card intersection) :: rat) / of_nat (card union)
               in if score > 1 / 20 then
                    [(score,
                      ''User: '' @ content msg @
                      (if i + 1 < length msgs \<and> i + 1 < length searchable_history
                          \<and> isinstance_AI (searchable_history ! (i + 1))
                       then NL @ ''AI: '' @ content (searchable_history ! (i + 1))
                       else []))]
                  else [])
            else [])
      else [])"

function scan_loop ::
  "env \<Rightarrow> message list \<Rightarrow> message list \<Rightarrow> char set \<Rightarrow> nat \<Rightarrow> (rat \<times> string) list \<Rightarrow>
   (rat \<times> string) list" where
  "scan_loop env msgs searchable_history query_tokens i scored_results =
     (if i < length searchable_history
      then scan_loop env msgs searchable_history query_tokens (i + 1)
             (scored_results @ scan_body env msgs searchable_history query_tokens i)
      else scored_results)"
  by pat_completeness auto
termination
  by (relation "measure (\<lambda>(env, msgs, sh, qt, i, acc). length sh - i)") auto

declare scan_loop.simps [simp del]

text \<open>
  \<open>list.sort(key=..., reverse=True)\<close>: CPython reverses the list, sorts it stably in
  ascending key order, and reverses the result, which keeps equal keys in their original
  order.
\<close>

definition py_sort_reverse :: "('a \<Rightarrow> 'k::linorder) \<Rightarrow> 'a list \<Rightarrow> 'a list" where
  "py_sort_reverse key xs = rev (sort_key key (rev xs))"

text \<open>The list \<open>scored_results\<close> after the loop, and \<open>top_items\<close> after the sort and cut.\<close>

definition scored_results ::
  "env \<Rightarrow> message list \<Rightarrow> string \<Rightarrow> int \<Rightarrow> (rat \<times> string) list" where
  "scored_results env msgs query_text exclude_last_n =
     scan_loop env msgs (py_slice_to msgs (- exclude_last_n))
       (set (lower env query_text)) 0 []"

definition top_items ::
  "env \<Rightarrow> message list \<Rightarrow> string \<Rightarrow> int \<Rightarrow> int \<Rightarrow> (rat \<times> string) list" where
  "top_items env msgs query_text exclude_last_n top_k =
     py_slice_to (py_sort_reverse fst (scored_results env msgs query_text exclude_last_n)) top_k"

fun format_items :: "env \<Rightarrow> int \<Rightarrow> (rat \<times> string) list \<Rightarrow> string" where
  "format_items env idx [] = []"
| "format_items env idx ((score, text) # rest) =
     (''--- '' @ FRAGMENT_LABEL env @ '' '' @ str_int env idx @ '' ('' @ SIMILARITY_LABEL env
        @ '': '' @ format_2f env score @ '') ---'' @ NL @ text @ NL)
     @ format_items env (idx + 1) rest"

definition retrieve_relevant_messages ::
  "env \<Rightarrow> message list \<Rightarrow> string \<Rightarrow> int \<Rightarrow> int \<Rightarrow> string" where
  "retrieve_relevant_messages env msgs query_text exclude_last_n top_k =
     (if query_text = [] \<or> int (length msgs) \<le> exclude_last_n then []
      else if set (lower env query_text) = {} then []
      else format_items env 1 (top_items env msgs query_text exclude_last_n top_k))"

definition build_context :: "env \<Rightarrow> AgentState \<Rightarrow> string \<Rightarrow> message list" where
  "build_context env st system_prompt =
     [SystemMessage system_prompt]
     @ (if truthy (get_summary st)
        then [SystemMessage (SUMMARY_HEADER env @ NL @ or_empty (get_summary st) @ NL @ NL
                @ SUMMARY_FOOTER env)]
        else [])
     @ (if messages st \<noteq> [] \<and> isinstance_Human (last (messages st))
        then (let relevant_context =
                    retrieve_relevant_messages env (messages st) (content (last (messages st)))
                      DISPLAY_WINDOW RECALL_TOP_K
              in if relevant_context \<noteq> []
                 then [SystemMessage (RECALL_HEADER env @ NL @ relevant_context)]
                 else [])
        else [])
     @ py_slice_from (messages st) (- DISPLAY_WINDOW)"

section \<open>Search tool (app/core/tools.py)\<close>

text \<open>
  \<open>search_post\<close> stands for the first three statements of the \<open>try\<close>
  (\<open>requests.post\<close>, \<open>raise_for_status\<close>, \<open>response.json()\<close>): \<open>Inl msg\<close> is an
  exception raised there, with \<open>str(e) = msg\<close>; \<open>Inr data\<close> is the parsed JSON. The rest
  of the \<open>try\<close> works on \<open>data\<close> and can raise too, when the JSON does not have the
  expected shape; every such exception reaches the same \<open>except\<close>.
\<close>

fun join_with :: "string \<Rightarrow> string list \<Rightarrow> string" where
  "join_with sep [] = []"
| "join_with sep [x] = x"
| "join_with sep (x # y # ys) = x @ sep @ join_with sep (y # ys)"

fun starts_with :: "string \<Rightarrow> string \<Rightarrow> bool" where
  "starts_with [] s = True"
| "starts_with (p # ps) [] = False"
| "starts_with (p # ps) (c # cs) = (p = c \<and> starts_with ps cs)"

fun contains :: "string \<Rightarrow> string \<Rightarrow> bool" where
  "contains p [] = (p = [])"
| "contains p (c # cs) = (starts_with p (c # cs) \<or> contains p cs)"

text \<open>\<open>str(v)\<close> of a JSON value inside an f-string.\<close>

definition py_str :: "env \<Rightarrow> json \<Rightarrow> string" where
  "py_str env v =
     (case v of
        JStr s \<Rightarrow> s
      | JNull \<Rightarrow> ''None''
      | JBool b \<Rightarrow> (if b then ''True'' else ''False'')
      | _ \<Rightarrow> str_json env v)"

text \<open>\<open>"references" in data\<close>.\<close>

definition has_references :: "json \<Rightarrow> py_exception + bool" where
  "has_references data =
     (case data of
        JObj kvs \<Rightarrow> Inr (map_of kvs ''references'' \<noteq> None)
      | JArr xs \<Rightarrow> Inr (JStr ''references'' \<in> set xs)
      | JStr s \<Rightarrow> Inr (contains ''references'' s)
      | _ \<Rightarrow> Inl (NotContainer data))"

text \<open>\<open>data["references"]\<close>, evaluated only after \<open>"references" in data\<close> was true.\<close>

definition get_references :: "json \<Rightarrow> py_exception + json" where
  "get_references data =
     (case data of
        JObj kvs \<Rightarrow> (case map_of kvs ''references'' of
                       Some v \<Rightarrow> Inr v
                     | None \<Rightarrow> Inl (BadSubscript data))
      | _ \<Rightarrow> Inl (BadSubscript data))"

text \<open>The items \<open>for item in refs\<close> runs over.\<close>

definition iterate :: "json \<Rightarrow> py_exception + json list" where
  "iterate refs =
     (case refs of
        JArr xs \<Rightarrow> Inr xs
      | JObj kvs \<Rightarrow> Inr (map (\<lambda>kv. JStr (fst kv)) kvs)
      | JStr s \<Rightarrow> Inr (map (\<lambda>c. JStr [c]) s)
      | _ \<Rightarrow> Inl (NotIterable refs))"

text \<open>
  One pass of the loop body: \<open>item.get(key, default)\<close> four times and the f-string. A
  key holding \<open>null\<close> prints as "None"; an item that is no dictionary raises at the first
  \<open>get\<close>.
\<close>

definition item_get :: "env \<Rightarrow> (string \<times> json) list \<Rightarrow> string \<Rightarrow> string \<Rightarrow> string" where
  "item_get env kvs key dflt =
     (case map_of kvs key of None \<Rightarrow> dflt | Some v \<Rightarrow> py_str env v)"

definition format_entry :: "env \<Rightarrow> json \<Rightarrow> py_exception + string" where
  "format_entry env item =
     (case item of
        JObj kvs \<Rightarrow>
          Inr (''Title: '' @ item_get env kvs ''title'' ''No Title'' @ NL
               @ ''Date: '' @ item_get env kvs ''date'' [] @ NL
               @ ''Source: '' @ item_get env kvs ''url'' ''No URL'' @ NL
               @ ''Content: '' @ item_get env kvs ''content'' [] @ NL)
      | _ \<Rightarrow> Inl (NoAttributeGet item))"

fun format_entries :: "env \<Rightarrow> json list \<Rightarrow> py_exception + string list" where
  "format_entries env [] = Inr []"
| "format_entries env (item # items) =
     (case format_entry env item of
        Inl x \<Rightarrow> Inl x
      | Inr entry \<Rightarrow>
          (case format_entries env items of
             Inl x \<Rightarrow> Inl x
           | Inr results_text \<Rightarrow> Inr (entry # results_text)))"

text \<open>The statements of the \<open>try\<close> after \<open>data = response.json()\<close>.\<close>

definition format_results :: "env \<Rightarrow> json \<Rightarrow> py_exception + string" where
  "format_results env data =
     (case has_references data of
        Inl x \<Rightarrow> Inl x
      | Inr False \<Rightarrow> Inr ''No relevant search results found.''
      | Inr True \<Rightarrow>
          (case get_references data of
             Inl x \<Rightarrow> Inl x
           | Inr refs \<Rightarrow>
               if \<not> json_truthy refs then Inr ''No relevant search results found.''
               else
                 (case iterate refs of
                    Inl x \<Rightarrow> Inl x
                  | Inr items \<Rightarrow>
                      (case format_entries env items of
                         Inl x \<Rightarrow> Inl x
                       | Inr results_text \<Rightarrow>
                           Inr (join_with (NL @ ''---'' @ NL) results_text)))))"

definition api_baidu_search :: "env \<Rightarrow> string \<Rightarrow> string" where
  "api_baidu_search env query =
     (case search_post env query of
        Inl e \<Rightarrow> ''Error connecting to Baidu Search: '' @ e
      | Inr data \<Rightarrow>
          (case format_results env data of
             Inl x \<Rightarrow> ''Error connecting to Baidu Search: '' @ exception_text env x
           | Inr text \<Rightarrow> text))"

text \<open>
  \<open>search_tool.invoke(args)\<close>: the tool wrapper checks the arguments against the tool's
  signature \<open>query: str\<close> before it runs the body; a dictionary without a string under
  "query" raises a validation error there, outside the \<open>try\<close> of the body.
\<close>

definition search_tool_invoke :: "env \<Rightarrow> (string \<times> json) list \<Rightarrow> error + string" where
  "search_tool_invoke env args =
     (case map_of args ''query'' of
        Some (JStr q) \<Rightarrow> Inr (api_baidu_search env q)
      | _ \<Rightarrow> Inl ValidationError)"



section \<open>Planner and workers (app/core/agent_builder.py, node functions)\<close>

text \<open>
  A node returns a dictionary of updates. \<open>upd_messages\<close> is the list under the key
  "messages" (empty when the key is missing), which the graph appends to the transcript;
  for every other key \<open>None\<close> means that the update does not mention the key and
  \<open>Some v\<close> that it sets the key to \<open>v\<close>.
\<close>

record update =
  upd_messages :: "message list"
  upd_conversation_summary :: "string option option"
  upd_summarized_msg_count :: "int option"
  upd_plan :: "ExecutionPlan option"
  upd_should_exit :: "bool option"
  upd_tutor_output :: "string option option"
  upd_judge_output :: "string option option"
  upd_inquiry_output :: "string option option"
  upd_summary_output :: "string option option"

definition empty_update :: update where
  "empty_update =
     \<lparr>upd_messages = [], upd_conversation_summary = None, upd_summarized_msg_count = None,
      upd_plan = None, upd_should_exit = None, upd_tutor_output = None,
      upd_judge_output = None, upd_inquiry_output = None, upd_summary_output = None\<rparr>"

definition apply_update :: "AgentState \<Rightarrow> update \<Rightarrow> AgentState" where
  "apply_update st u =
     st\<lparr>messages := messages st @ upd_messages u,
        conversation_summary :=
          (case upd_conversation_summary u of None \<Rightarrow> conversation_summary st | Some v \<Rightarrow> Some v),
        summarized_msg_count :=
          (case upd_summarized_msg_count u of None \<Rightarrow> summarized_msg_count st | Some c \<Rightarrow> Some c),
        plan := (case upd_plan u of None \<Rightarrow> plan st | Some p \<Rightarrow> Some p),
        should_exit := py_get (upd_should_exit u) (should_exit st),
        tutor_output := py_get (upd_tutor_output u) (tutor_output st),
        judge_output := py_get (upd_judge_output u) (judge_output st),
        inquiry_output := py_get (upd_inquiry_output u) (inquiry_output st),
        summary_output := py_get (upd_summary_output u) (summary_output st)\<rparr>"

text \<open>
  \<open>analyzer_node\<close>. The \<open>try\<close> covers the call of the planner; its \<open>except\<close> handler
  builds the fallback plan with the keywords \<open>needs_tutor_answer\<close>, \<open>needs_judge\<close>,
  \<open>needs_inquiry\<close> and \<open>thought_process\<close> only, and an exception of that constructor
  leaves the function.
\<close>

definition analyzer_inputs :: "env \<Rightarrow> AgentState \<Rightarrow> message list" where
  "analyzer_inputs env st =
     [SystemMessage (ANALYZER_SYSTEM_PROMPT env)]
     @ (if truthy (get_summary st)
        then [SystemMessage (''Context: '' @ str_opt (get_summary st))] else [])
     @ py_slice_from (messages st) (- 3)"

definition planned_update :: "ExecutionPlan \<Rightarrow> update" where
  "planned_update p =
     empty_update\<lparr>upd_plan := Some p, upd_tutor_output := Some None,
       upd_judge_output := Some None, upd_inquiry_output := Some None,
       upd_summary_output := Some None\<rparr>"

definition analyzer_node :: "env \<Rightarrow> AgentState \<Rightarrow> error + update" where
  "analyzer_node env st =
     (if messages st = [] then Inr empty_update
      else
        (case planner_invoke env (analyzer_inputs env st) of
           Inr p \<Rightarrow> Inr (planned_update p)
         | Inl e \<Rightarrow>
             (case ExecutionPlan_init (Some True) (Some False) (Some False) None None
                     (Some ''Error in planning, defaulting to simple answer.'') of
                Inl err \<Rightarrow> Inl err
              | Inr p \<Rightarrow> Inr (planned_update p))))"

text \<open>
  \<open>_run_tool_loop\<close>. It returns a text or is left by an exception of
  \<open>search_tool.invoke\<close>; the model keeps both cases as \<open>outcome\<close>, together with the
  call-local list \<open>current_messages\<close> as it stands at the end and the external calls
  made, in order (\<open>SearchCall\<close>: the body of the search tool ran for that request).
\<close>

datatype call = ToolModelCall "message list" | SearchCall tool_call | ModelCall "message list"

record tool_loop_result =
  outcome :: "error + string"
  current_messages :: "message list"
  calls :: "call list"

fun run_tool_calls ::
  "env \<Rightarrow> message \<Rightarrow> tool_call list \<Rightarrow> message list \<times> call list \<Rightarrow>
   error option \<times> message list \<times> call list" where
  "run_tool_calls env response [] (msgs, cs) = (None, msgs, cs)"
| "run_tool_calls env response (tc # tcs) (msgs, cs) =
     (if tc_name tc = ''baidu_search''
      then (case search_tool_invoke env (tc_args tc) of
              Inl e \<Rightarrow> (Some e, msgs, cs)
            | Inr tool_result \<Rightarrow>
                run_tool_calls env response tcs
                  (msgs @ [response, ToolMessage tool_result (tc_id tc) (tc_name tc)],
                   cs @ [SearchCall tc]))
      else run_tool_calls env response tcs (msgs, cs))"

definition run_tool_loop :: "env \<Rightarrow> string \<Rightarrow> AgentState \<Rightarrow> tool_loop_result" where
  "run_tool_loop env prompt_content st =
     (let msgs0 = build_context env st prompt_content;
          (text, tcs) = model_with_tools_invoke env msgs0
      in if tcs \<noteq> [] then
           (case run_tool_calls env (AIMessage text tcs) tcs (msgs0, [ToolModelCall msgs0]) of
              (Some e, msgs1, cs) \<Rightarrow>
                \<lparr>outcome = Inl e, current_messages = msgs1, calls = cs\<rparr>
            | (None, msgs1, cs) \<Rightarrow>
                \<lparr>outcome = Inr (model_invoke env msgs1), current_messages = msgs1,
                 calls = cs @ [ModelCall msgs1]\<rparr>)
         else \<lparr>outcome = Inr text, current_messages = msgs0, calls = [ToolModelCall msgs0]\<rparr>)"

definition topic_of :: "AgentState \<Rightarrow> string" where
  "topic_of st = str_opt (py_get (current_topic st) (Some ''General Knowledge''))"

definition tutor_node :: "env \<Rightarrow> AgentState \<Rightarrow> error + update" where
  "tutor_node env st =
     (case outcome (run_tool_loop env (TUTOR_WORKER_PROMPT env (topic_of st)) st) of
        Inl e \<Rightarrow> Inl e
      | Inr text \<Rightarrow> Inr (empty_update\<lparr>upd_tutor_output := Some (Some text)\<rparr>))"

definition judge_node :: "env \<Rightarrow> AgentState \<Rightarrow> error + update" where
  "judge_node env st =
     (case outcome (run_tool_loop env (JUDGE_WORKER_PROMPT env (topic_of st)) st) of
        Inl e \<Rightarrow> Inl e
      | Inr text \<Rightarrow> Inr (empty_update\<lparr>upd_judge_output := Some (Some text)\<rparr>))"

definition inquiry_node :: "env \<Rightarrow> AgentState \<Rightarrow> update" where
  "inquiry_node env st =
     (let judge_fb = (if truthy (judge_output st) then or_empty (judge_output st)
                      else NONE_MARK env)
      in empty_update\<lparr>upd_inquiry_output :=
           Some (Some (model_invoke env
             (build_context env st (INQUIRY_WORKER_PROMPT env (topic_of st) judge_fb))))\<rparr>)"

definition summary_node :: "env \<Rightarrow> AgentState \<Rightarrow> update" where
  "summary_node env st =
     (case plan st of
        None \<Rightarrow> empty_update
      | Some p \<Rightarrow>
          if is_concluding p then
            empty_update\<lparr>upd_summary_output :=
                Some (Some (model_invoke env (build_context env st (SUMMARIZER_NOTE_PROMPT env)))),
              upd_should_exit := Some True\<rparr>
          else if request_summary p then
            empty_update\<lparr>upd_summary_output :=
                Some (Some (model_invoke env (build_context env st (SUMMARIZER_REVIEW_PROMPT env))))\<rparr>
          else empty_update)"

section \<open>Memory compressor (app/core/context.py, manage_memory)\<close>

text \<open>
  \<open>manage_memory\<close> returns the pair (new summary, new cursor); the model keeps, as
  \<open>llm_calls\<close>, the prompts sent to the compressing model (none, or one when the
  function compresses).
\<close>

record memory_result =
  new_summary :: "string option"
  new_cursor :: int
  llm_calls :: "string list"

definition cursor_of :: "AgentState \<Rightarrow> int" where
  "cursor_of st = py_get (summarized_msg_count st) 0"

definition history_text :: "message list \<Rightarrow> string" where
  "history_text msgs =
     concat (map (\<lambda>msg. (if isinstance_Human msg then ''User'' else ''AI'')
                           @ '': '' @ content msg @ NL) msgs)"

definition manage_memory :: "env \<Rightarrow> AgentState \<Rightarrow> memory_result" where
  "manage_memory env st =
     (let cursor = cursor_of st;
          current_summary = py_get (conversation_summary st) (Some []);
          total_count = int (length (messages st));
          unsummarized_count = total_count - cursor
      in if unsummarized_count < COMPRESSION_THRESHOLD
         then \<lparr>new_summary = current_summary, new_cursor = cursor, llm_calls = []\<rparr>
         else
           (let end_index = total_count - KEEP_WINDOW
            in if end_index \<le> cursor
               then \<lparr>new_summary = current_summary, new_cursor = cursor, llm_calls = []\<rparr>
               else
                 (let prompt = COMPRESS_PROMPT env
                        (if truthy current_summary then or_empty current_summary
                         else NO_RECORD_MARK env)
                        (history_text (py_slice (messages st) cursor end_index))
                  in \<lparr>new_summary = Some (llm_invoke env [HumanMessage prompt]),
                       new_cursor = end_index, llm_calls = [prompt]\<rparr>)))"

section \<open>Persistence (app/core/memory.py)\<close>

text \<open>
  The files on disk: the session JSON files by path, each holding the five keys
  \<open>save_session\<close> writes, and the note files by path. The JSON form of the message
  list (\<open>messages_to_dict\<close>, \<open>messages_from_dict\<close>) is the list itself.
\<close>

record session_data =
  sd_session_id :: string
  sd_last_updated :: string
  sd_topic :: "string option"
  sd_conversation_summary :: "string option"
  sd_messages :: "message list"

record store =
  json_files :: "string \<rightharpoonup> session_data"
  text_files :: "string \<rightharpoonup> string"

definition get_session_path :: "string \<Rightarrow> error + string" where
  "get_session_path sid =
     (if sid = [] then Inl ValueError else Inr (''memory/sessions/'' @ sid @ ''.json''))"

definition get_note_path :: "env \<Rightarrow> string \<Rightarrow> string option \<Rightarrow> string" where
  "get_note_path env sid topic =
     ''memory/notes/'' @ sid
     @ (if truthy topic
        then ''_'' @ map (\<lambda>c. if isalnum env c \<or> c = CHR ''-'' \<or> c = CHR ''_'' then c else CHR ''_'')
                        (or_empty topic)
        else [])
     @ ''.md''"

definition save_session :: "env \<Rightarrow> store \<Rightarrow> AgentState \<Rightarrow> string \<times> store" where
  "save_session env fs st =
     (if \<not> truthy (session_id st) then ([], fs)
      else
        (let sid = or_empty (session_id st);
             session = \<lparr>sd_session_id = sid, sd_last_updated = now_isoformat env,
                        sd_topic = py_get (current_topic st) (Some ''General''),
                        sd_conversation_summary = get_summary st,
                        sd_messages = messages st\<rparr>;
             json_path = ''memory/sessions/'' @ sid @ ''.json'';
             fs1 = fs\<lparr>json_files := (json_files fs)(json_path \<mapsto> session)\<rparr>;
             fs2 = (if should_exit st \<and> truthy (summary_output st)
                    then fs1\<lparr>text_files := (text_files fs1)
                           (get_note_path env sid (py_get (current_topic st) None) \<mapsto>
                              ''---'' @ NL @ ''source_session: '' @ sid @ NL
                              @ ''date: '' @ now_date env @ NL
                              @ ''topic: '' @ str_opt (py_get (current_topic st) (Some ''General''))
                              @ NL @ ''---'' @ NL @ NL @ or_empty (summary_output st))\<rparr>
                    else fs1)
         in (json_path, fs2)))"

text \<open>
  \<open>load_session\<close> returns a dictionary with the four keys "messages", "session_id",
  "current_topic" and "conversation_summary" and no other key, or \<open>None\<close> when the file
  does not exist; an empty session id raises in \<open>_get_session_path\<close>.
\<close>

definition load_session :: "store \<Rightarrow> string \<Rightarrow> error + AgentState option" where
  "load_session fs sid =
     (case get_session_path sid of
        Inl e \<Rightarrow> Inl e
      | Inr json_path \<Rightarrow>
          (case json_files fs json_path of
             None \<Rightarrow> Inr None
           | Some d \<Rightarrow>
               Inr (Some \<lparr>messages = sd_messages d, current_topic = Some (sd_topic d),
                          session_id = Some (sd_session_id d),
                          conversation_summary = Some (sd_conversation_summary d),
                          summarized_msg_count = None, plan = None, should_exit = False,
                          tutor_output = None, judge_output = None, inquiry_output = None,
                          summary_output = None\<rparr>)))"

section \<open>Aggregator (app/core/agent_builder.py, aggregator_node)\<close>

definition final_response :: "env \<Rightarrow> AgentState \<Rightarrow> message" where
  "final_response env st =
     (let tutor_out = or_empty (tutor_output st);
          judge_out = or_empty (judge_output st);
          inquiry_out = or_empty (inquiry_output st);
          summary_out = or_empty (summary_output st)
      in if should_exit st then AIMessage summary_out []
         else if tutor_out = [] \<and> judge_out = [] \<and> inquiry_out = [] \<and> summary_out = []
         then AIMessage (CLARIFY_MESSAGE env) []
         else AIMessage
                (model_invoke env
                   ([SystemMessage (AGGREGATOR_SYSTEM_PROMPT env tutor_out judge_out inquiry_out
                                      summary_out)]
                    @ (if messages st \<noteq> [] then [last (messages st)] else [])))
                [])"

text \<open>
  \<open>state_to_save\<close>: the snapshot the aggregator hands to \<open>save_session\<close>. The summary
  and the cursor are written into it only when the summary returned by \<open>manage_memory\<close>
  differs from \<open>state.get("conversation_summary")\<close>.
\<close>

definition state_to_save :: "env \<Rightarrow> AgentState \<Rightarrow> AgentState" where
  "state_to_save env st =
     (let temp_state = st\<lparr>messages := messages st @ [final_response env st]\<rparr>;
          r = manage_memory env temp_state
      in if new_summary r \<noteq> get_summary st
         then temp_state\<lparr>conversation_summary := Some (new_summary r),
                summarized_msg_count := Some (new_cursor r)\<rparr>
         else temp_state)"

text \<open>
  \<open>aggregator_node\<close> saves the snapshot and then reads \<open>state_to_save["conversation_summary"]\<close>
  and \<open>state_to_save["summarized_msg_count"]\<close> for the update it returns: a missing key
  raises after the save.
\<close>

definition aggregator_node :: "env \<Rightarrow> store \<Rightarrow> AgentState \<Rightarrow> (error + update) \<times> store" where
  "aggregator_node env fs st =
     (let snapshot = state_to_save env st;
          fs' = snd (save_session env fs snapshot)
      in case conversation_summary snapshot of
           None \<Rightarrow> (Inl KeyError, fs')
         | Some s \<Rightarrow>
             (case summarized_msg_count snapshot of
                None \<Rightarrow> (Inl KeyError, fs')
              | Some c \<Rightarrow>
                  (Inr (empty_update\<lparr>upd_messages := [final_response env st],
                          upd_conversation_summary := Some s,
                          upd_summarized_msg_count := Some c\<rparr>), fs')))"

section \<open>The graph and one turn of the command-line loop\<close>

text \<open>
  The edges of \<open>build_agent\<close>, from the last node backwards. Each function runs its
  node on the state, merges the update and follows the edge; an exception of a node or
  of a routing function ends the run.
\<close>

definition run_aggregator :: "env \<Rightarrow> store \<Rightarrow> AgentState \<Rightarrow> (error + AgentState) \<times> store" where
  "run_aggregator env fs st =
     (case aggregator_node env fs st of
        (Inl e, fs') \<Rightarrow> (Inl e, fs')
      | (Inr u, fs') \<Rightarrow> (Inr (apply_update st u), fs'))"

definition run_inquiry :: "env \<Rightarrow> store \<Rightarrow> AgentState \<Rightarrow> (error + AgentState) \<times> store" where
  "run_inquiry env fs st = run_aggregator env fs (apply_update st (inquiry_node env st))"

definition run_summary :: "env \<Rightarrow> store \<Rightarrow> AgentState \<Rightarrow> (error + AgentState) \<times> store" where
  "run_summary env fs st = run_aggregator env fs (apply_update st (summary_node env st))"

definition run_judge :: "env \<Rightarrow> store \<Rightarrow> AgentState \<Rightarrow> (error + AgentState) \<times> store" where
  "run_judge env fs st =
     (case judge_node env st of
        Inl e \<Rightarrow> (Inl e, fs)
      | Inr u \<Rightarrow>
          (let st1 = apply_update st u
           in case route_from_judge st1 of
                Inl e \<Rightarrow> (Inl e, fs)
              | Inr Inquiry \<Rightarrow> run_inquiry env fs st1
              | Inr Aggregator \<Rightarrow> run_aggregator env fs st1
              | Inr other \<Rightarrow> (Inl KeyError, fs)))"

definition run_tutor :: "env \<Rightarrow> store \<Rightarrow> AgentState \<Rightarrow> (error + AgentState) \<times> store" where
  "run_tutor env fs st =
     (case tutor_node env st of
        Inl e \<Rightarrow> (Inl e, fs)
      | Inr u \<Rightarrow>
          (let st1 = apply_update st u
           in case route_from_tutor st1 of
                Inl e \<Rightarrow> (Inl e, fs)
              | Inr Judge \<Rightarrow> run_judge env fs st1
              | Inr Inquiry \<Rightarrow> run_inquiry env fs st1
              | Inr Aggregator \<Rightarrow> run_aggregator env fs st1
              | Inr other \<Rightarrow> (Inl KeyError, fs)))"

definition graph_invoke :: "env \<Rightarrow> store \<Rightarrow> AgentState \<Rightarrow> (error + AgentState) \<times> store" where
  "graph_invoke env fs st =
     (case analyzer_node env st of
        Inl e \<Rightarrow> (Inl e, fs)
      | Inr u \<Rightarrow>
          (let st1 = apply_update st u
           in case route_from_analyzer st1 of
                Tutor \<Rightarrow> run_tutor env fs st1
              | Judge \<Rightarrow> run_judge env fs st1
              | Inquiry \<Rightarrow> run_inquiry env fs st1
              | Summary \<Rightarrow> run_summary env fs st1
              | Aggregator \<Rightarrow> run_aggregator env fs st1
              | Analyzer \<Rightarrow> (Inl KeyError, fs)))"

text \<open>
  One iteration of the loop of \<open>main\<close> (app/cli.py) for an utterance that reaches the
  agent: the user message is appended to the state in place, the graph runs, and its
  result becomes the current state; when the graph raises, the loop reports the error
  and goes on with the state that already holds the user message.
\<close>

definition cli_turn :: "env \<Rightarrow> AgentState \<times> store \<Rightarrow> string \<Rightarrow> AgentState \<times> store" where
  "cli_turn env cfg user_input =
     (let st1 = (fst cfg)\<lparr>messages := messages (fst cfg) @ [HumanMessage user_input]\<rparr>
      in case graph_invoke env (snd cfg) st1 of
           (Inl e, fs') \<Rightarrow> (st1, fs')
         | (Inr st2, fs') \<Rightarrow> (st2, fs'))"

section \<open>An example environment\<close>

text \<open>
  Concrete capabilities, used to run the definitions on concrete inputs: a planner that
  asks for the tutor only, models that answer with fixed texts and request no tool, a
  search service that times out, and ASCII versions of the string functions.
\<close>

definition ascii_lower :: "string \<Rightarrow> string" where
  "ascii_lower s =
     map (\<lambda>c. let n = (of_char c :: nat) in if 65 \<le> n \<and> n \<le> 90 then char_of (n + 32) else c) s"

definition ascii_isalnum :: "char \<Rightarrow> bool" where
  "ascii_isalnum c =
     (let n = (of_char c :: nat)
      in (48 \<le> n \<and> n \<le> 57) \<or> (65 \<le> n \<and> n \<le> 90) \<or> (97 \<le> n \<and> n \<le> 122))"

definition tutor_plan :: ExecutionPlan where
  "tutor_plan =
     \<lparr>needs_tutor_answer = True, needs_judge = False, needs_inquiry = False,
      request_summary = False, is_concluding = False, thought_process = ''a question''\<rparr>"

definition example_env :: env where
  "example_env =
     \<lparr>planner_invoke = (\<lambda>ms. Inr tutor_plan),
      model_with_tools_invoke = (\<lambda>ms. (''an answer'', [])),
      model_invoke = (\<lambda>ms. ''a reply''),
      llm_invoke = (\<lambda>ms. ''a summary''),
      search_post = (\<lambda>q. Inl ''timed out''),
      exception_text = (\<lambda>x. ''wrong kind of value''),
      str_json = (\<lambda>v. ''?''),
      now_isoformat = ''2025-01-01T00:00:00'',
      now_date = ''2025-01-01'',
      lower = ascii_lower,
      isalnum = ascii_isalnum,
      str_int = (\<lambda>i. if 0 \<le> i \<and> i < 10 then [char_of (48 + nat i)] else ''#''),
      format_2f = (\<lambda>r. ''0.00''),
      ANALYZER_SYSTEM_PROMPT = ''plan the turn'',
      TUTOR_WORKER_PROMPT = (\<lambda>topic. ''answer about '' @ topic),
      JUDGE_WORKER_PROMPT = (\<lambda>topic. ''judge about '' @ topic),
      INQUIRY_WORKER_PROMPT = (\<lambda>topic fb. ''ask about '' @ topic @ '' given '' @ fb),
      SUMMARIZER_NOTE_PROMPT = ''write the note'',
      SUMMARIZER_REVIEW_PROMPT = ''write the recap'',
      AGGREGATOR_SYSTEM_PROMPT = (\<lambda>t j i s. ''merge '' @ t @ j @ i @ s),
      COMPRESS_PROMPT = (\<lambda>summary history. ''fuse '' @ summary @ '' with '' @ history),
      SUMMARY_HEADER = ''[summary]'',
      SUMMARY_FOOTER = ''(background only)'',
      RECALL_HEADER = ''[recall]'',
      FRAGMENT_LABEL = ''fragment'',
      SIMILARITY_LABEL = ''similarity'',
      NONE_MARK = ''none'',
      NO_RECORD_MARK = ''(no record yet)'',
      CLARIFY_MESSAGE = ''could you be more specific?''\<rparr>"

text \<open>The state of the command-line loop after the user's first utterance "hi".\<close>

definition first_utterance :: AgentState where
  "first_utterance = (initial_state ''s1'')\<lparr>messages := [HumanMessage ''hi'']\<rparr>"

definition empty_store :: store where
  "empty_store = \<lparr>json_files = Map.empty, text_files = Map.empty\<rparr>"

text \<open>A transcript of sixteen messages with nothing summarised yet.\<close>

definition sixteen_messages :: AgentState where
  "sixteen_messages =
     (initial_state ''s1'')\<lparr>messages :=
        concat (replicate 8 [HumanMessage ''why'', AIMessage ''because'' []])\<rparr>"

text \<open>
  Fifteen messages, a stored summary equal to the text the example compressor returns,
  and cursor 0: the aggregator's reply is the sixteenth message.
\<close>

definition fifteen_summarised :: AgentState where
  "fifteen_summarised =
     (initial_state ''s1'')\<lparr>messages :=
        HumanMessage ''so'' # concat (replicate 7 [AIMessage ''because'' [], HumanMessage ''why'']),
        conversation_summary := Some (Some ''a summary''), summarized_msg_count := Some 0\<rparr>"










definition compressed_session :: AgentState where
  "compressed_session =
     sixteen_messages\<lparr>conversation_summary := Some (Some ''a summary''), summarized_msg_count := Some 11\<rparr>"

text \<open>
  A transcript of nineteen messages: three user questions over the letters a, b, c, d
  with their answers, one unrelated question, and twelve recent messages.
\<close>

definition long_transcript :: "message list" where
  "long_transcript =
     [HumanMessage ''abc'', AIMessage ''one'' [], HumanMessage ''abd'', AIMessage ''two'' [],
      HumanMessage ''bca'', AIMessage ''three'' [], HumanMessage ''xyz'']
     @ replicate 12 (AIMessage ''filler'' [])"

section \<open>Reachable states\<close>

text \<open>
  The configurations (state, files) of the command-line loop: it starts from the initial
  state of a fresh session id and runs one turn per utterance, with whatever the
  external capabilities answer in that turn.
\<close>

inductive reachable :: "AgentState \<times> store \<Rightarrow> bool" where
  start: "reachable (initial_state sid, fs)"
| turn: "reachable cfg \<Longrightarrow> reachable (cli_turn env cfg user_input)"

text \<open>What a completed run of the aggregator does to transcript length and cursor.\<close>

definition advanced :: "message list \<Rightarrow> int option \<Rightarrow> AgentState \<Rightarrow> bool" where
  "advanced msgs stored st' =
     (length (messages st') = length msgs + 1
      \<and> (cursor_of st' = py_get stored 0
          \<or> (cursor_of st' = int (length (messages st')) - 5
              \<and> 16 \<le> int (length (messages st')) - py_get stored 0)))"

text \<open>Eight turns of the loop in the example environment.\<close>

definition eight_turns :: "AgentState \<times> store" where
  "eight_turns = foldl (cli_turn example_env) (initial_state ''s1'', empty_store) (replicate 8 ''why'')"

section \<open>Properties of the router\<close>

text \<open>
  C6. With a plan present after planning, the next worker follows the fixed precedence:
  Summary if \<open>request_summary\<close> or \<open>is_concluding\<close> (whatever the other flags are), else
  Tutor if \<open>needs_tutor_answer\<close>, else Judge if \<open>needs_judge\<close>, else Inquiry if
  \<open>needs_inquiry\<close>, else Aggregator; and the choice depends on the plan only, so two
  states with the same plan get the same worker.
\<close>

theorem route_from_analyzer_precedence:
  "plan st = Some p \<Longrightarrow>
     route_from_analyzer st =
       (if request_summary p \<or> is_concluding p then Summary
        else if needs_tutor_answer p then Tutor
        else if needs_judge p then Judge
        else if needs_inquiry p then Inquiry
        else Aggregator)
     \<and> (plan st' = plan st \<longrightarrow> route_from_analyzer st' = route_from_analyzer st)"
  by (simp add: route_from_analyzer_def)

theorem route_from_analyzer_precedence_witness:
  "plan (first_utterance\<lparr>plan := Some tutor_plan\<rparr>) = Some tutor_plan
   \<and> route_from_analyzer (first_utterance\<lparr>plan := Some tutor_plan\<rparr>) = Tutor
   \<and> plan ((initial_state ''s2'')\<lparr>plan := Some tutor_plan\<rparr>)
       = plan (first_utterance\<lparr>plan := Some tutor_plan\<rparr>)
   \<and> route_from_analyzer ((initial_state ''s2'')\<lparr>plan := Some tutor_plan\<rparr>) = Tutor"
  using route_from_analyzer_precedence
          [of "first_utterance\<lparr>plan := Some tutor_plan\<rparr>" tutor_plan
              "(initial_state ''s2'')\<lparr>plan := Some tutor_plan\<rparr>"]
  by (simp add: tutor_plan_def)

section \<open>Properties of the planner\<close>

lemma ExecutionPlan_init_fallback:
  "ExecutionPlan_init (Some True) (Some False) (Some False) None None (Some t)
     = Inl ValidationError"
  by (simp add: ExecutionPlan_init_def)

text \<open>
  C1. When the planner's structured decode fails on a state with a non-empty transcript,
  \<open>analyzer_node\<close> does not return the default plan: the fallback constructor is called
  without \<open>request_summary\<close> and \<open>is_concluding\<close>, which are required, and its validation
  error leaves the node.
\<close>

theorem analyzer_node_decode_failure:
  "messages st \<noteq> [] \<Longrightarrow> planner_invoke env (analyzer_inputs env st) = Inl e \<Longrightarrow>
     analyzer_node env st = Inl ValidationError"
  by (simp add: analyzer_node_def ExecutionPlan_init_fallback)

theorem analyzer_node_decode_failure_witness:
  "messages first_utterance \<noteq> []
   \<and> planner_invoke (example_env\<lparr>planner_invoke := (\<lambda>ms. Inl ''malformed output'')\<rparr>)
        (analyzer_inputs (example_env\<lparr>planner_invoke := (\<lambda>ms. Inl ''malformed output'')\<rparr>)
           first_utterance) = Inl ''malformed output''
   \<and> analyzer_node (example_env\<lparr>planner_invoke := (\<lambda>ms. Inl ''malformed output'')\<rparr>)
        first_utterance = Inl ValidationError"
  using analyzer_node_decode_failure
          [of first_utterance "example_env\<lparr>planner_invoke := (\<lambda>ms. Inl ''malformed output'')\<rparr>"
              "''malformed output''"]
  by (simp add: first_utterance_def)

section \<open>Properties of the memory compressor\<close>

lemma positions_from:
  "length (filter (\<lambda>i. int n - 5 \<le> int i) [0..<n]) = min 5 n"
proof -
  have "{x. int n - 5 \<le> int x} \<inter> set [0..<n] = {n - 5..<n}"
    by auto
  then have "length (filter (\<lambda>i. int n - 5 \<le> int i) [0..<n]) = card {n - 5..<n}"
    by (simp add: distinct_length_filter)
  then show ?thesis by auto
qed

lemma py_slice_range:
  "0 \<le> i \<Longrightarrow> i \<le> j \<Longrightarrow> j \<le> int (length xs) \<Longrightarrow>
     py_slice xs i j = drop (nat i) (take (nat j) xs)"
proof -
  assume a: "0 \<le> i" "i \<le> j" "j \<le> int (length xs)"
  then have b: "py_bound (length xs) i = nat i" "py_bound (length xs) j = nat j"
    by (auto simp: py_bound_def min_def)
  show ?thesis
    by (simp add: py_slice_def Let_def b drop_take)
qed

lemma manage_memory_fires:
  "16 \<le> int (length (messages st)) - cursor_of st \<Longrightarrow>
     manage_memory env st =
       \<lparr>new_summary = Some (llm_invoke env [HumanMessage (COMPRESS_PROMPT env
            (if truthy (py_get (conversation_summary st) (Some []))
             then or_empty (py_get (conversation_summary st) (Some []))
             else NO_RECORD_MARK env)
            (history_text (py_slice (messages st) (cursor_of st)
               (int (length (messages st)) - 5))))]),
        new_cursor = int (length (messages st)) - 5,
        llm_calls = [COMPRESS_PROMPT env
            (if truthy (py_get (conversation_summary st) (Some []))
             then or_empty (py_get (conversation_summary st) (Some []))
             else NO_RECORD_MARK env)
            (history_text (py_slice (messages st) (cursor_of st)
               (int (length (messages st)) - 5)))]\<rparr>"
  by (simp add: manage_memory_def Let_def COMPRESSION_THRESHOLD_def KEEP_WINDOW_def)

lemma manage_memory_idle:
  "int (length (messages st)) - cursor_of st < 16 \<Longrightarrow>
     manage_memory env st =
       \<lparr>new_summary = py_get (conversation_summary st) (Some []),
        new_cursor = cursor_of st, llm_calls = []\<rparr>"
  by (simp add: manage_memory_def Let_def COMPRESSION_THRESHOLD_def KEEP_WINDOW_def)

text \<open>
  C5 (amended). \<open>manage_memory\<close> compresses exactly when
  \<open>len(messages) - cursor \<ge> 16\<close>. When it does, it sends the compressing model one
  prompt, built from the summary it read and the role-tagged text of
  \<open>messages[cursor : len(messages) - 5]\<close> (for a cursor \<open>\<ge> 0\<close>, the messages from the
  cursor up to the last five), and returns that model's answer as the new summary with
  the cursor \<open>len(messages) - 5\<close>; the transcript positions at or above that cursor, the
  messages left uncompressed, number \<open>min(5, len(messages))\<close>. When it does not, and in
  particular whenever the range \<open>[cursor, len(messages) - 5)\<close> is empty or inverted, it
  calls no model and returns the cursor unchanged, with the stored summary if the
  state has a summary entry and the empty string if it has none.
\<close>

theorem manage_memory_trigger:
  "(llm_calls (manage_memory env st) \<noteq> [] \<longleftrightarrow> 16 \<le> int (length (messages st)) - cursor_of st)
   \<and> (16 \<le> int (length (messages st)) - cursor_of st \<longrightarrow>
        manage_memory env st =
          \<lparr>new_summary = Some (llm_invoke env [HumanMessage (COMPRESS_PROMPT env
               (if truthy (py_get (conversation_summary st) (Some []))
                then or_empty (py_get (conversation_summary st) (Some []))
                else NO_RECORD_MARK env)
               (history_text (py_slice (messages st) (cursor_of st)
                  (int (length (messages st)) - 5))))]),
           new_cursor = int (length (messages st)) - 5,
           llm_calls = [COMPRESS_PROMPT env
               (if truthy (py_get (conversation_summary st) (Some []))
                then or_empty (py_get (conversation_summary st) (Some []))
                else NO_RECORD_MARK env)
               (history_text (py_slice (messages st) (cursor_of st)
                  (int (length (messages st)) - 5)))]\<rparr>
        \<and> (0 \<le> cursor_of st \<longrightarrow>
              py_slice (messages st) (cursor_of st) (int (length (messages st)) - 5)
                = drop (nat (cursor_of st)) (take (length (messages st) - 5) (messages st)))
        \<and> length (filter (\<lambda>i. new_cursor (manage_memory env st) \<le> int i)
                     [0..<length (messages st)])
            = min 5 (length (messages st)))
   \<and> (int (length (messages st)) - cursor_of st < 16 \<longrightarrow>
        manage_memory env st =
          \<lparr>new_summary = (case conversation_summary st of None \<Rightarrow> Some [] | Some s \<Rightarrow> s),
           new_cursor = cursor_of st, llm_calls = []\<rparr>)
   \<and> (int (length (messages st)) - 5 \<le> cursor_of st \<longrightarrow>
        llm_calls (manage_memory env st) = []
        \<and> new_cursor (manage_memory env st) = cursor_of st)"
proof (cases "16 \<le> int (length (messages st)) - cursor_of st")
  case True
  have r: "0 \<le> cursor_of st \<longrightarrow>
      py_slice (messages st) (cursor_of st) (int (length (messages st)) - 5)
        = drop (nat (cursor_of st)) (take (length (messages st) - 5) (messages st))"
  proof
    assume c: "0 \<le> cursor_of st"
    with True have "py_slice (messages st) (cursor_of st) (int (length (messages st)) - 5)
        = drop (nat (cursor_of st)) (take (nat (int (length (messages st)) - 5)) (messages st))"
      by (intro py_slice_range) simp_all
    moreover have "nat (int (length (messages st)) - 5) = length (messages st) - 5"
      by simp
    ultimately show "py_slice (messages st) (cursor_of st) (int (length (messages st)) - 5)
        = drop (nat (cursor_of st)) (take (length (messages st) - 5) (messages st))"
      by simp
  qed
  have p: "length (filter (\<lambda>i. new_cursor (manage_memory env st) \<le> int i)
                     [0..<length (messages st)])
            = min 5 (length (messages st))"
    by (simp add: manage_memory_fires [OF True] positions_from)
  have f: "llm_calls (manage_memory env st) \<noteq> []"
    by (simp add: manage_memory_fires [OF True])
  from True r p f manage_memory_fires [OF True, of env] show ?thesis
    by simp
next
  case False
  then have i: "int (length (messages st)) - cursor_of st < 16" by simp
  from manage_memory_idle [OF i, of env] False show ?thesis
    by (simp add: py_get_def)
qed

theorem manage_memory_trigger_witness:
  "(16 \<le> int (length (messages sixteen_messages)) - cursor_of sixteen_messages
    \<and> 0 \<le> cursor_of sixteen_messages
    \<and> llm_calls (manage_memory example_env sixteen_messages) \<noteq> []
    \<and> new_summary (manage_memory example_env sixteen_messages) = Some ''a summary''
    \<and> new_cursor (manage_memory example_env sixteen_messages) = 11
    \<and> py_slice (messages sixteen_messages) (cursor_of sixteen_messages)
         (int (length (messages sixteen_messages)) - 5)
        = take 11 (messages sixteen_messages)
    \<and> length (filter (\<lambda>i. new_cursor (manage_memory example_env sixteen_messages) \<le> int i)
                 [0..<length (messages sixteen_messages)]) = 5)
   \<and> (int (length (messages compressed_session)) - cursor_of compressed_session < 16
    \<and> int (length (messages compressed_session)) - 5 \<le> cursor_of compressed_session
    \<and> llm_calls (manage_memory example_env compressed_session) = []
    \<and> new_summary (manage_memory example_env compressed_session) = Some ''a summary''
    \<and> new_cursor (manage_memory example_env compressed_session) = 11)"
proof -
  have h1: "16 \<le> int (length (messages sixteen_messages)) - cursor_of sixteen_messages"
    by code_simp
  have c1: "cursor_of sixteen_messages = 0"
    by code_simp
  have l1: "length (messages sixteen_messages) = 16"
    by code_simp
  have s1: "new_summary (manage_memory example_env sixteen_messages) = Some ''a summary''"
    by code_simp
  have h2: "int (length (messages compressed_session)) - cursor_of compressed_session < 16"
    by code_simp
  have c2: "cursor_of compressed_session = 11"
    "conversation_summary compressed_session = Some (Some ''a summary'')"
    by code_simp+
  have l2: "length (messages compressed_session) = 16"
    by code_simp
  from manage_memory_trigger [of example_env sixteen_messages]
       manage_memory_trigger [of example_env compressed_session] h1 c1 l1 s1 h2 c2 l2
  show ?thesis by auto
qed

text \<open>
  C5 as stated fails where the state has no summary entry, as in a fresh session:
  \<open>manage_memory\<close> does not compress, yet the summary it returns is the empty string and
  not the missing entry that \<open>state.get("conversation_summary")\<close> reads; the aggregator
  compares the two and takes them for different.
\<close>

theorem manage_memory_absent_summary:
  "llm_calls (manage_memory example_env first_utterance) = []
   \<and> get_summary first_utterance = None
   \<and> new_summary (manage_memory example_env first_utterance) = Some []
   \<and> conversation_summary (state_to_save example_env first_utterance) = Some (Some [])"
  by code_simp

section \<open>Properties of the aggregator\<close>

lemma state_to_save_cursor:
  "summarized_msg_count (state_to_save env st) =
     (if new_summary (manage_memory env (st\<lparr>messages := messages st @ [final_response env st]\<rparr>)) \<noteq> get_summary st
      then Some (new_cursor (manage_memory env (st\<lparr>messages := messages st @ [final_response env st]\<rparr>)))
      else summarized_msg_count st)"
  by (simp add: state_to_save_def Let_def)

lemma aggregator_node_update:
  "aggregator_node env fs st = (Inr u, fs') \<Longrightarrow>
     upd_messages u = [final_response env st]
     \<and> upd_summarized_msg_count u = summarized_msg_count (state_to_save env st)
     \<and> upd_conversation_summary u = conversation_summary (state_to_save env st)"
  by (auto simp: aggregator_node_def Let_def empty_update_def split: option.splits)

text \<open>
  C10. The cursor in the snapshot handed to \<open>save_session\<close> and in the update the
  aggregator returns differs from the stored cursor only if the summary returned by
  \<open>manage_memory\<close> differs from the stored summary; when the two summaries are equal
  the cursor stays, whatever cursor \<open>manage_memory\<close> computed.
\<close>

theorem aggregator_cursor_frame:
  "(summarized_msg_count (state_to_save env st) \<noteq> summarized_msg_count st \<longrightarrow>
      new_summary (manage_memory env (st\<lparr>messages := messages st @ [final_response env st]\<rparr>))
        \<noteq> get_summary st)
   \<and> (new_summary (manage_memory env (st\<lparr>messages := messages st @ [final_response env st]\<rparr>))
        = get_summary st \<longrightarrow>
        summarized_msg_count (state_to_save env st) = summarized_msg_count st
        \<and> (\<forall>u fs fs'. aggregator_node env fs st = (Inr u, fs') \<longrightarrow>
              upd_summarized_msg_count u = summarized_msg_count st))"
  using aggregator_node_update [of env _ st] by (auto simp: state_to_save_cursor)

theorem aggregator_cursor_frame_witness:
  "new_summary (manage_memory example_env
      (fifteen_summarised\<lparr>messages := messages fifteen_summarised @ [final_response example_env fifteen_summarised]\<rparr>))
     = get_summary fifteen_summarised
   \<and> new_cursor (manage_memory example_env
      (fifteen_summarised\<lparr>messages := messages fifteen_summarised @ [final_response example_env fifteen_summarised]\<rparr>)) = 11
   \<and> summarized_msg_count fifteen_summarised = Some 0
   \<and> summarized_msg_count (state_to_save example_env fifteen_summarised) = Some 0
   \<and> map_sum id upd_summarized_msg_count (fst (aggregator_node example_env empty_store fifteen_summarised)) = Inr (Some 0)"
proof -
  have a: "new_summary (manage_memory example_env
      (fifteen_summarised\<lparr>messages := messages fifteen_summarised @ [final_response example_env fifteen_summarised]\<rparr>))
     = get_summary fifteen_summarised"
    by code_simp
  have b: "new_cursor (manage_memory example_env
      (fifteen_summarised\<lparr>messages := messages fifteen_summarised @ [final_response example_env fifteen_summarised]\<rparr>)) = 11"
    by code_simp
  have c: "summarized_msg_count fifteen_summarised = Some 0"
    by code_simp
  have d: "map_sum id upd_summarized_msg_count (fst (aggregator_node example_env empty_store fifteen_summarised)) = Inr (Some 0)"
    by code_simp
  from aggregator_cursor_frame [of example_env fifteen_summarised] a b c d show ?thesis
    by simp
qed

section \<open>Properties of persistence\<close>

text \<open>
  C2. Saving a state that has a session id and loading that id again gives back the
  transcript and the summary as they were saved, and neither the plan nor the scratch
  outputs; the cursor \<open>summarized_msg_count\<close> is not among the keys \<open>save_session\<close>
  writes nor among those \<open>load_session\<close> returns, so the loaded state has no cursor,
  whatever the cursor was at save time.
\<close>

theorem save_then_load:
  "truthy (session_id st) \<Longrightarrow>
     load_session (snd (save_session env fs st)) (or_empty (session_id st)) =
       Inr (Some \<lparr>messages = messages st,
                  current_topic = Some (py_get (current_topic st) (Some ''General'')),
                  session_id = Some (or_empty (session_id st)),
                  conversation_summary = Some (get_summary st),
                  summarized_msg_count = None, plan = None, should_exit = False,
                  tutor_output = None, judge_output = None, inquiry_output = None,
                  summary_output = None\<rparr>)"
  by (cases "session_id st")
     (auto simp: save_session_def load_session_def get_session_path_def Let_def)

theorem save_then_load_witness:
  "truthy (session_id compressed_session)
   \<and> summarized_msg_count compressed_session = Some 11
   \<and> map_sum id (map_option summarized_msg_count)
        (load_session (snd (save_session example_env empty_store compressed_session)) ''s1'')
       = Inr (Some None)
   \<and> map_sum id (map_option messages)
        (load_session (snd (save_session example_env empty_store compressed_session)) ''s1'')
       = Inr (Some (messages compressed_session))
   \<and> map_sum id (map_option get_summary)
        (load_session (snd (save_session example_env empty_store compressed_session)) ''s1'')
       = Inr (Some (get_summary compressed_session))"
proof -
  have h: "truthy (session_id compressed_session)"
    by code_simp
  have s: "or_empty (session_id compressed_session) = ''s1''"
    by code_simp
  have c: "summarized_msg_count compressed_session = Some 11"
    by code_simp
  from save_then_load [OF h, of example_env empty_store] s c h show ?thesis
    by (simp add: get_summary_def py_get_def)
qed

section \<open>Properties of the search tool and the tool loop\<close>
















section \<open>Properties of the relevance retriever\<close>

lemma jaccard_bounds:
  assumes "finite A" "finite B"
  shows "0 \<le> (of_nat (card (A \<inter> B)) :: rat) / of_nat (card (A \<union> B))"
    and "(of_nat (card (A \<inter> B)) :: rat) / of_nat (card (A \<union> B)) \<le> 1"
proof -
  show "0 \<le> (of_nat (card (A \<inter> B)) :: rat) / of_nat (card (A \<union> B))"
    by simp
  have "card (A \<inter> B) \<le> card (A \<union> B)"
    using assms by (intro card_mono) auto
  then have "(of_nat (card (A \<inter> B)) :: rat) \<le> of_nat (card (A \<union> B))"
    by simp
  then show "(of_nat (card (A \<inter> B)) :: rat) / of_nat (card (A \<union> B)) \<le> 1"
    by (cases "card (A \<union> B) = 0") (simp_all add: divide_le_eq_1)
qed

lemma scan_body_scores:
  assumes "finite qt" "p \<in> set (scan_body env msgs sh qt i)"
  shows "1 / 20 < fst p \<and> fst p \<le> 1"
  using assms jaccard_bounds(2) [of qt "set (lower env (content (sh ! i)))"]
  by (auto simp: scan_body_def Let_def split: if_splits)

lemma scan_loop_eq:
  "scan_loop env msgs sh qt i acc = acc @ concat (map (scan_body env msgs sh qt) [i..<length sh])"
proof (induction env msgs sh qt i acc rule: scan_loop.induct)
  case (1 env msgs sh qt i acc)
  show ?case
  proof (cases "i < length sh")
    case True
    with 1 show ?thesis
      by (subst scan_loop.simps) (simp add: upt_conv_Cons)
  next
    case False
    then show ?thesis
      by (subst scan_loop.simps) simp
  qed
qed

lemma scored_results_eq:
  "scored_results env msgs q n =
     concat (map (scan_body env msgs (py_slice_to msgs (- n)) (set (lower env q)))
               [0..<length (py_slice_to msgs (- n))])"
  by (simp add: scored_results_def scan_loop_eq)

lemma scored_results_scores:
  "p \<in> set (scored_results env msgs q n) \<Longrightarrow> 1 / 20 < fst p \<and> fst p \<le> 1"
  by (auto simp: scored_results_eq dest: scan_body_scores [rotated])


lemma py_sort_reverse_sorted:
  "sorted_wrt (\<lambda>a b. key b \<le> key a) (py_sort_reverse key xs)"
proof -
  have "sorted (map key (sort_key key (rev xs)))"
    by simp
  then have "sorted_wrt (\<lambda>a b. key a \<le> key b) (sort_key key (rev xs))"
    by (simp add: sorted_map)
  then show ?thesis
    by (simp add: py_sort_reverse_def sorted_wrt_rev)
qed

lemma py_sort_reverse_stable:
  "filter (\<lambda>y. key y = k) (py_sort_reverse key xs) = filter (\<lambda>y. key y = k) xs"
  by (simp add: py_sort_reverse_def sort_key_stable flip: rev_filter)

lemma py_sort_reverse_mset:
  "mset (py_sort_reverse key xs) = mset xs"
  by (simp add: py_sort_reverse_def)

lemma top_items_take:
  "top_items env msgs q n RECALL_TOP_K = take 2 (py_sort_reverse fst (scored_results env msgs q n))"
  by (simp add: top_items_def py_slice_to_def py_bound_def RECALL_TOP_K_def min_def)

text \<open>
  C8. Every score the retriever appends to \<open>scored_results\<close> lies in \<open>[0, 1]\<close>; the
  entries are appended in transcript order (the loop body at positions
  \<open>0, 1, ...\<close> of the searchable history). The selected pairs \<open>top_items\<close> are the
  first two entries of the list sorted by \<open>sort(key=score, reverse=True)\<close>: a
  rearrangement of \<open>scored_results\<close> in descending score order in which the entries
  of each score keep their original relative order; so \<open>top_items\<close> is in descending
  score order and has at most \<open>top_k = 2\<close> entries.
\<close>

theorem retriever_ranking:
  "(\<forall>p \<in> set (scored_results env msgs q n). 0 \<le> fst p \<and> fst p \<le> 1)
   \<and> scored_results env msgs q n =
       concat (map (scan_body env msgs (py_slice_to msgs (- n)) (set (lower env q)))
                 [0..<length (py_slice_to msgs (- n))])
   \<and> top_items env msgs q n RECALL_TOP_K
       = take 2 (py_sort_reverse fst (scored_results env msgs q n))
   \<and> mset (py_sort_reverse fst (scored_results env msgs q n)) = mset (scored_results env msgs q n)
   \<and> sorted_wrt (\<lambda>a b. fst b \<le> fst a) (py_sort_reverse fst (scored_results env msgs q n))
   \<and> (\<forall>v. filter (\<lambda>p. fst p = v) (py_sort_reverse fst (scored_results env msgs q n))
            = filter (\<lambda>p. fst p = v) (scored_results env msgs q n))
   \<and> sorted_wrt (\<lambda>a b. fst b \<le> fst a) (top_items env msgs q n RECALL_TOP_K)
   \<and> length (top_items env msgs q n RECALL_TOP_K) \<le> 2"
proof -
  have a: "\<forall>p \<in> set (scored_results env msgs q n). 0 \<le> fst p \<and> fst p \<le> 1"
    using scored_results_scores [of _ env msgs q n] by fastforce
  have b: "sorted_wrt (\<lambda>a b. fst b \<le> fst a) (top_items env msgs q n RECALL_TOP_K)"
    unfolding top_items_take by (rule sorted_wrt_take) (rule py_sort_reverse_sorted)
  have c: "length (top_items env msgs q n RECALL_TOP_K) \<le> 2"
    unfolding top_items_take by simp
  have d: "\<forall>v. filter (\<lambda>p. fst p = v) (py_sort_reverse fst (scored_results env msgs q n))
            = filter (\<lambda>p. fst p = v) (scored_results env msgs q n)"
    by (simp add: py_sort_reverse_stable)
  from a b c d scored_results_eq [of env msgs q n] top_items_take [of env msgs q n]
      py_sort_reverse_sorted [of fst "scored_results env msgs q n"]
      py_sort_reverse_mset [of fst "scored_results env msgs q n"]
  show ?thesis
    by blast
qed

theorem retriever_ranking_witness:
  "scored_results example_env long_transcript ''Cab'' 12 =
     [(1, ''User: abc'' @ NL @ ''AI: one''), (1 / 2, ''User: abd'' @ NL @ ''AI: two''),
      (1, ''User: bca'' @ NL @ ''AI: three'')]
   \<and> (1 / 2, ''User: abd'' @ NL @ ''AI: two'')
        \<in> set (scored_results example_env long_transcript ''Cab'' 12)
   \<and> (0 :: rat) \<le> 1 / 2 \<and> (1 / 2 :: rat) \<le> 1
   \<and> top_items example_env long_transcript ''Cab'' 12 RECALL_TOP_K =
       [(1, ''User: abc'' @ NL @ ''AI: one''), (1, ''User: bca'' @ NL @ ''AI: three'')]
   \<and> filter (\<lambda>p. fst p = 1)
        (py_sort_reverse fst (scored_results example_env long_transcript ''Cab'' 12))
       = [(1, ''User: abc'' @ NL @ ''AI: one''), (1, ''User: bca'' @ NL @ ''AI: three'')]"
proof -
  have s: "scored_results example_env long_transcript ''Cab'' 12 =
     [(1, ''User: abc'' @ NL @ ''AI: one''), (1 / 2, ''User: abd'' @ NL @ ''AI: two''),
      (1, ''User: bca'' @ NL @ ''AI: three'')]"
    by code_simp
  have t: "top_items example_env long_transcript ''Cab'' 12 RECALL_TOP_K =
       [(1, ''User: abc'' @ NL @ ''AI: one''), (1, ''User: bca'' @ NL @ ''AI: three'')]"
    by code_simp
  have f: "filter (\<lambda>p. fst p = 1)
        (py_sort_reverse fst (scored_results example_env long_transcript ''Cab'' 12))
       = filter (\<lambda>p. fst p = 1) (scored_results example_env long_transcript ''Cab'' 12)"
    using retriever_ranking [of example_env long_transcript "''Cab''" 12] by blast
  have m: "(1 / 2, ''User: abd'' @ NL @ ''AI: two'')
        \<in> set (scored_results example_env long_transcript ''Cab'' 12)"
    unfolding s by simp
  have b: "(0 :: rat) \<le> 1 / 2 \<and> (1 / 2 :: rat) \<le> 1"
    using retriever_ranking [of example_env long_transcript "''Cab''" 12] m by fastforce
  have g: "filter (\<lambda>p. fst p = 1) (scored_results example_env long_transcript ''Cab'' 12)
      = [(1, ''User: abc'' @ NL @ ''AI: one''), (1, ''User: bca'' @ NL @ ''AI: three'')]"
    unfolding s by simp
  from s t f m b g show ?thesis
    by simp
qed

section \<open>Properties of the cursor\<close>

lemma worker_updates_frame:
  "messages (apply_update st (inquiry_node env st)) = messages st"
  "summarized_msg_count (apply_update st (inquiry_node env st)) = summarized_msg_count st"
  "messages (apply_update st (summary_node env st)) = messages st"
  "summarized_msg_count (apply_update st (summary_node env st)) = summarized_msg_count st"
  by (simp_all add: apply_update_def inquiry_node_def summary_node_def empty_update_def
        Let_def split: option.splits)

lemma tool_worker_updates_frame:
  assumes "tutor_node env st = Inr u \<or> judge_node env st = Inr u"
  shows "messages (apply_update st u) = messages st"
    and "summarized_msg_count (apply_update st u) = summarized_msg_count st"
    and "plan (apply_update st u) = plan st"
  using assms
  by (auto simp: tutor_node_def judge_node_def apply_update_def empty_update_def
        split: sum.splits)

lemma analyzer_update_frame:
  "analyzer_node env st = Inr u \<Longrightarrow>
     messages (apply_update st u) = messages st
     \<and> summarized_msg_count (apply_update st u) = summarized_msg_count st"
  by (auto simp: analyzer_node_def apply_update_def planned_update_def empty_update_def
        split: if_splits sum.splits)

lemma manage_memory_cursor:
  "new_cursor (manage_memory env st) = cursor_of st
   \<or> (new_cursor (manage_memory env st) = int (length (messages st)) - 5
       \<and> 16 \<le> int (length (messages st)) - cursor_of st)"
  by (simp add: manage_memory_def Let_def COMPRESSION_THRESHOLD_def KEEP_WINDOW_def)

lemma run_aggregator_advanced:
  assumes "run_aggregator env fs st = (Inr st', fs')"
  shows "advanced (messages st) (summarized_msg_count st) st'"
proof -
  obtain u where u: "aggregator_node env fs st = (Inr u, fs')" and st': "st' = apply_update st u"
    using assms by (auto simp: run_aggregator_def split: prod.splits sum.splits)
  from aggregator_node_update [OF u]
  have m: "messages st' = messages st @ [final_response env st]"
    and c: "summarized_msg_count st' = summarized_msg_count (state_to_save env st)"
    and k: "upd_summarized_msg_count u \<noteq> None"
    using u by (auto simp: st' apply_update_def aggregator_node_def Let_def empty_update_def
                  split: option.splits)
  let ?temp = "st\<lparr>messages := messages st @ [final_response env st]\<rparr>"
  have t: "cursor_of ?temp = cursor_of st" "length (messages ?temp) = length (messages st) + 1"
    by (simp_all add: cursor_of_def)
  from manage_memory_cursor [of env ?temp] t
  have "cursor_of (state_to_save env st) = cursor_of st
        \<or> (cursor_of (state_to_save env st) = int (length (messages st) + 1) - 5
            \<and> 16 \<le> int (length (messages st) + 1) - cursor_of st)"
    by (auto simp: cursor_of_def state_to_save_cursor py_get_def)
  moreover have "cursor_of st' = cursor_of (state_to_save env st)"
    using c by (simp add: cursor_of_def)
  ultimately show ?thesis
    using m by (simp add: advanced_def cursor_of_def)
qed

lemma run_inquiry_advanced:
  "run_inquiry env fs st = (Inr st', fs') \<Longrightarrow> advanced (messages st) (summarized_msg_count st) st'"
  using run_aggregator_advanced [of env fs "apply_update st (inquiry_node env st)" st' fs']
  by (simp add: run_inquiry_def worker_updates_frame)

lemma run_summary_advanced:
  "run_summary env fs st = (Inr st', fs') \<Longrightarrow> advanced (messages st) (summarized_msg_count st) st'"
  using run_aggregator_advanced [of env fs "apply_update st (summary_node env st)" st' fs']
  by (simp add: run_summary_def worker_updates_frame)

lemma run_judge_advanced:
  assumes "run_judge env fs st = (Inr st', fs')"
  shows "advanced (messages st) (summarized_msg_count st) st'"
proof -
  obtain u where u: "judge_node env st = Inr u"
    using assms by (auto simp: run_judge_def split: sum.splits)
  from tool_worker_updates_frame(1,2) [of env st u] u
  have f: "messages (apply_update st u) = messages st"
    "summarized_msg_count (apply_update st u) = summarized_msg_count st"
    by simp_all
  have "advanced (messages (apply_update st u)) (summarized_msg_count (apply_update st u)) st'"
    using assms u run_aggregator_advanced [of env fs "apply_update st u" st' fs']
      run_inquiry_advanced [of env fs "apply_update st u" st' fs']
    by (auto simp: run_judge_def Let_def split: sum.splits node.splits)
  with f show ?thesis by simp
qed

lemma run_tutor_advanced:
  assumes "run_tutor env fs st = (Inr st', fs')"
  shows "advanced (messages st) (summarized_msg_count st) st'"
proof -
  obtain u where u: "tutor_node env st = Inr u"
    using assms by (auto simp: run_tutor_def split: sum.splits)
  from tool_worker_updates_frame(1,2) [of env st u] u
  have f: "messages (apply_update st u) = messages st"
    "summarized_msg_count (apply_update st u) = summarized_msg_count st"
    by simp_all
  have "advanced (messages (apply_update st u)) (summarized_msg_count (apply_update st u)) st'"
    using assms u run_aggregator_advanced [of env fs "apply_update st u" st' fs']
      run_inquiry_advanced [of env fs "apply_update st u" st' fs']
      run_judge_advanced [of env fs "apply_update st u" st' fs']
    by (auto simp: run_tutor_def Let_def split: sum.splits node.splits)
  with f show ?thesis by simp
qed

lemma graph_invoke_advanced:
  assumes "graph_invoke env fs st = (Inr st', fs')"
  shows "advanced (messages st) (summarized_msg_count st) st'"
proof -
  obtain u where u: "analyzer_node env st = Inr u"
    using assms by (auto simp: graph_invoke_def split: sum.splits)
  let ?s1 = "apply_update st u"
  from analyzer_update_frame [OF u]
  have f: "messages ?s1 = messages st" "summarized_msg_count ?s1 = summarized_msg_count st"
    by simp_all
  have "advanced (messages ?s1) (summarized_msg_count ?s1) st'"
    using assms u
      run_tutor_advanced [of env fs ?s1 st' fs'] run_judge_advanced [of env fs ?s1 st' fs']
      run_inquiry_advanced [of env fs ?s1 st' fs'] run_summary_advanced [of env fs ?s1 st' fs']
      run_aggregator_advanced [of env fs ?s1 st' fs']
    by (auto simp: graph_invoke_def Let_def split: node.splits)
  with f show ?thesis by simp
qed

lemma cli_turn_cursor:
  "length (messages (fst cfg)) < length (messages (fst (cli_turn env cfg u)))
   \<and> (cursor_of (fst (cli_turn env cfg u)) = cursor_of (fst cfg)
      \<or> (cursor_of (fst (cli_turn env cfg u)) = int (length (messages (fst (cli_turn env cfg u)))) - 5
          \<and> 16 \<le> int (length (messages (fst (cli_turn env cfg u)))) - cursor_of (fst cfg)))"
proof -
  let ?st1 = "(fst cfg)\<lparr>messages := messages (fst cfg) @ [HumanMessage u]\<rparr>"
  show ?thesis
  proof (cases "graph_invoke env (snd cfg) ?st1")
    case (Pair r fs')
    show ?thesis
    proof (cases r)
      case (Inl e)
      with Pair show ?thesis
        by (simp add: cli_turn_def cursor_of_def)
    next
      case (Inr st2)
      with Pair have "advanced (messages ?st1) (summarized_msg_count ?st1) st2"
        using graph_invoke_advanced by blast
      with Pair Inr show ?thesis
        by (auto simp: cli_turn_def advanced_def cursor_of_def)
    qed
  qed
qed

text \<open>
  C7. In every state the command-line loop reaches, the cursor (\<open>summarized_msg_count\<close>,
  read as 0 while the key is missing) is at least 0 and at most the length of the
  transcript, and a further turn never lowers it.
\<close>

theorem cursor_invariant:
  "reachable cfg \<Longrightarrow>
     0 \<le> cursor_of (fst cfg)
     \<and> cursor_of (fst cfg) \<le> int (length (messages (fst cfg)))
     \<and> cursor_of (fst cfg) \<le> cursor_of (fst (cli_turn env cfg u))"
proof -
  assume r: "reachable cfg"
  then have "0 \<le> cursor_of (fst cfg) \<and> cursor_of (fst cfg) \<le> int (length (messages (fst cfg)))"
  proof (induction rule: reachable.induct)
    case (start sid fs)
    show ?case by (simp add: initial_state_def cursor_of_def py_get_def)
  next
    case (turn cfg env user_input)
    with cli_turn_cursor [of cfg env user_input] show ?case by auto
  qed
  with cli_turn_cursor [of cfg env u] show ?thesis by auto
qed

lemma reachable_foldl:
  "reachable cfg \<Longrightarrow> reachable (foldl (cli_turn env) cfg us)"
  by (induction us arbitrary: cfg) (simp_all add: reachable.turn)

theorem cursor_invariant_witness:
  "reachable eight_turns
   \<and> cursor_of (fst eight_turns) = 11
   \<and> length (messages (fst eight_turns)) = 16
   \<and> 0 \<le> cursor_of (fst eight_turns)
   \<and> cursor_of (fst eight_turns) \<le> int (length (messages (fst eight_turns)))
   \<and> cursor_of (fst eight_turns) \<le> cursor_of (fst (cli_turn example_env eight_turns ''why''))"
proof -
  have r: "reachable eight_turns"
    unfolding eight_turns_def by (rule reachable_foldl) (rule reachable.start)
  have c: "cursor_of (fst eight_turns) = 11"
    by code_simp
  have l: "length (messages (fst eight_turns)) = 16"
    by code_simp
  from cursor_invariant [OF r, of example_env "''why''"] c l r show ?thesis
    by simp
qed

section \<open>Properties of routing without a plan\<close>











end
